theory Spec2Isabelle
  imports Main "HOL-Library.Sublist"
begin

section \<open>Data model\<close>

text \<open>
  The user object is whatever \<open>GET /auth/me\<close> or the login endpoints return in
  \<open>res.data\<close>; the session code stores it whole and the views read \<open>user.role\<close>
  and \<open>user.name\<close>. The fields are those of the Profile of the data model.
\<close>

record profile =
  uid :: string
  name :: string
  email :: string
  role :: string
  subscriptionTier :: string
  biometricEnabled :: bool

text \<open>
  An axios call rejects either with an HTTP error status (401 for a rejected token or
  rejected credentials) or without any response at all (transport failure).
\<close>

datatype failure = Http_error nat | Network_error

datatype request = GET string | POST string "(string \<times> string) list"

text \<open>
  The state the provider closes over: the three React state cells, the browser's
  \<open>localStorage\<close>, the \<open>api.defaults.headers.common\<close> object of the shared axios
  instance, and the requests sent so far, each with the \<open>Authorization\<close> header it
  carried.
\<close>

record session =
  user :: "profile option"
  token :: "string option"
  loading :: bool
  localStorage :: "string \<rightharpoonup> string"
  headers_common :: "string \<rightharpoonup> string"
  sent :: "(request \<times> string option) list"

text \<open>
  JavaScript truthiness of a value that is \<open>null\<close> or a string: \<open>null\<close> and the
  empty string are falsy. This is the test \<open>if (token)\<close> and \<open>if (!token)\<close>.
\<close>

fun truthy :: "string option \<Rightarrow> bool" where
  "truthy None = False"
| "truthy (Some t) = (t \<noteq> [])"

section \<open>The session store (AuthProvider)\<close>

text \<open>
  The three \<open>useState\<close> initialisers: no user, the token read from durable storage,
  and \<open>loading = true\<close>.
\<close>

definition AuthProvider :: "(string \<rightharpoonup> string) \<Rightarrow> (string \<rightharpoonup> string) \<Rightarrow> session" where
  "AuthProvider ls hs =
     \<lparr>user = None, token = ls ''token'', loading = True,
      localStorage = ls, headers_common = hs, sent = []\<rparr>"

text \<open>The first effect, keyed on \<open>[token]\<close>: set or delete the default header.\<close>

definition sync_header :: "session \<Rightarrow> session" where
  "sync_header s =
     (case token s of
        Some t \<Rightarrow>
          if t \<noteq> [] then s\<lparr>headers_common := (headers_common s)(''Authorization'' \<mapsto> ''Bearer '' @ t)\<rparr>
          else s\<lparr>headers_common := (headers_common s)(''Authorization'' := None)\<rparr>
      | None \<Rightarrow> s\<lparr>headers_common := (headers_common s)(''Authorization'' := None)\<rparr>)"

text \<open>Sending a request records it together with the header it goes out with.\<close>

definition send :: "request \<Rightarrow> session \<Rightarrow> session" where
  "send r s = s\<lparr>sent := sent s @ [(r, headers_common s ''Authorization'')]\<rparr>"

text \<open>
  \<open>fetchUser\<close> (exported as \<open>refreshUser\<close>) is a \<open>useCallback\<close> keyed on
  \<open>[token]\<close>: the \<open>token\<close> it tests is the one of the render that created the
  reference, here the argument \<open>captured\<close>, not the one of the session at the time of
  the call. The argument \<open>me\<close> is how \<open>GET /auth/me\<close> settles; it is consulted only
  on the path that sends the request, and a request that resolves carries a user
  object, as the endpoint's contract has it.

  \<open>fetchUser_call\<close> is the part of the function that runs at the call, up to the
  \<open>await\<close>; \<open>fetchUser_settle\<close> is the part that runs once the awaited request has
  settled: the rest of the \<open>try\<close> block or the \<open>catch\<close> block, then the
  \<open>finally\<close> block. The \<open>catch\<close> binds no error: every rejection takes the same
  branch. \<open>fetchUser\<close> is the function run from the call to the settlement of its
  promise with nothing in between.
\<close>

definition fetchUser_call :: "string option \<Rightarrow> session \<Rightarrow> session" where
  "fetchUser_call captured s =
     (if \<not> truthy captured then s\<lparr>loading := False\<rparr> else send (GET ''/auth/me'') s)"

definition fetchUser_settle :: "failure + profile \<Rightarrow> session \<Rightarrow> session" where
  "fetchUser_settle me s =
     (case me of
        Inr data \<Rightarrow> s\<lparr>user := Some data, loading := False\<rparr>
      | Inl e \<Rightarrow>
          s\<lparr>localStorage := (localStorage s)(''token'' := None),
            token := None, user := None, loading := False\<rparr>)"

definition fetchUser :: "string option \<Rightarrow> failure + profile \<Rightarrow> session \<Rightarrow> session" where
  "fetchUser captured me s =
     (if \<not> truthy captured then s\<lparr>loading := False\<rparr>
      else fetchUser_settle me (send (GET ''/auth/me'') s))"

text \<open>
  \<open>login\<close> and \<open>biometricLogin\<close>: the awaited \<open>api.post\<close> either rejects, and
  the rejection leaves the function before any assignment, or resolves with
  \<open>{token, user}\<close>. The first component of the result is what the caller's
  \<open>await\<close> sees. \<open>login_settle\<close> is the part after the \<open>await\<close>, the same in
  both functions.
\<close>

definition login ::
  "string \<Rightarrow> string \<Rightarrow> failure + string \<times> profile \<Rightarrow> session \<Rightarrow> (failure + profile) \<times> session" where
  "login em password res s =
     (let s1 = send (POST ''/auth/login'' [(''email'', em), (''password'', password)]) s in
      case res of
        Inl e \<Rightarrow> (Inl e, s1)
      | Inr (newToken, userData) \<Rightarrow>
          (Inr userData,
           s1\<lparr>localStorage := (localStorage s1)(''token'' \<mapsto> newToken),
              token := Some newToken, user := Some userData\<rparr>))"

definition biometricLogin ::
  "string \<Rightarrow> string \<Rightarrow> failure + string \<times> profile \<Rightarrow> session \<Rightarrow> (failure + profile) \<times> session" where
  "biometricLogin credentialId em res s =
     (let s1 = send (POST ''/auth/biometric/login''
                       [(''credential_id'', credentialId), (''user_email'', em)]) s in
      case res of
        Inl e \<Rightarrow> (Inl e, s1)
      | Inr (newToken, userData) \<Rightarrow>
          (Inr userData,
           s1\<lparr>localStorage := (localStorage s1)(''token'' \<mapsto> newToken),
              token := Some newToken, user := Some userData\<rparr>))"

definition login_settle :: "failure + string \<times> profile \<Rightarrow> session \<Rightarrow> session" where
  "login_settle res s =
     (case res of
        Inl e \<Rightarrow> s
      | Inr (newToken, userData) \<Rightarrow>
          s\<lparr>localStorage := (localStorage s)(''token'' \<mapsto> newToken),
            token := Some newToken, user := Some userData\<rparr>)"

definition logout :: "session \<Rightarrow> session" where
  "logout s =
     s\<lparr>localStorage := (localStorage s)(''token'' := None), token := None, user := None\<rparr>"

subsection \<open>Effects after a render\<close>

text \<open>
  Both effects depend on \<open>token\<close> (the second through the identity of the
  \<open>fetchUser\<close> callback): they run on mount and after every render in which the
  token differs from the previous one, the header effect first. The effect calls the
  \<open>fetchUser\<close> of the render it belongs to, which has captured the token of that
  render. If \<open>fetchUser\<close> itself changes the token (the \<open>catch\<close> branch), they run
  once more; the token is then \<open>null\<close> and no further request goes out.
\<close>

definition react_effects :: "failure + profile \<Rightarrow> session \<Rightarrow> session" where
  "react_effects me s =
     (let s1 = fetchUser (token s) me (sync_header s) in
      if token s1 = token s then s1 else fetchUser (token s1) me (sync_header s1))"

definition bootstrap ::
  "failure + profile \<Rightarrow> (string \<rightharpoonup> string) \<Rightarrow> (string \<rightharpoonup> string) \<Rightarrow> session" where
  "bootstrap me ls hs = react_effects me (AuthProvider ls hs)"

subsection \<open>Operations one at a time\<close>

text \<open>
  The operations the context value exposes, each taken from the context value of the
  current render and run to the settlement of its own request, and one step of the
  store: the operation, then the effects if it changed the token, run to their
  settlement too. \<open>RefreshUser\<close> is \<open>refreshUser()\<close> through the reference of the
  current render, whose closure holds the current token. The first component of the
  pair given to \<open>step\<close> is how the \<open>GET /auth/me\<close> of this step settles, should one
  be sent.
\<close>

datatype event =
    Login string string "failure + string \<times> profile"
  | BiometricLogin string string "failure + string \<times> profile"
  | Logout
  | RefreshUser

fun apply_event :: "failure + profile \<Rightarrow> event \<Rightarrow> session \<Rightarrow> session" where
  "apply_event me (Login em password res) s = snd (login em password res s)"
| "apply_event me (BiometricLogin credentialId em res) s = snd (biometricLogin credentialId em res s)"
| "apply_event me Logout s = logout s"
| "apply_event me RefreshUser s = fetchUser (token s) me s"

definition step :: "(failure + profile) \<times> event \<Rightarrow> session \<Rightarrow> session" where
  "step p s =
     (let s' = apply_event (fst p) (snd p) s in
      if token s' = token s then s' else react_effects (fst p) s')"

fun run :: "((failure + profile) \<times> event) list \<Rightarrow> session \<Rightarrow> session" where
  "run [] s = s"
| "run (p # ps) s = run ps (step p s)"

subsection \<open>Operations that overlap\<close>

text \<open>
  Nothing cancels a request in flight and nothing orders the settlements, so between
  the call of an operation and the settlement of its request other calls and
  settlements can take place. An action is one piece of code that runs without
  interruption: the part of an operation up to its \<open>await\<close>, or the part after it.
  \<open>RefreshUser_called\<close> carries the token its reference has captured, which is the
  current one or that of an earlier render. After an action that changed the token
  the effects run: the header effect, then the call part of the new \<open>fetchUser\<close>,
  whose settlement is an action of its own. A settlement is applied whether or not a
  request is waiting for it: a list of actions may describe more than the program can
  do, never less.
\<close>

datatype action =
    Login_called string string
  | BiometricLogin_called string string
  | Login_settled "failure + string \<times> profile"
  | Logout_called
  | RefreshUser_called "string option"
  | Me_settled "failure + profile"

fun act :: "action \<Rightarrow> session \<Rightarrow> session" where
  "act (Login_called em password) s =
     send (POST ''/auth/login'' [(''email'', em), (''password'', password)]) s"
| "act (BiometricLogin_called credentialId em) s =
     send (POST ''/auth/biometric/login''
             [(''credential_id'', credentialId), (''user_email'', em)]) s"
| "act (Login_settled res) s = login_settle res s"
| "act Logout_called s = logout s"
| "act (RefreshUser_called captured) s = fetchUser_call captured s"
| "act (Me_settled me) s = fetchUser_settle me s"

definition perform :: "action \<Rightarrow> session \<Rightarrow> session" where
  "perform a s =
     (let s' = act a s in
      if token s' = token s then s' else fetchUser_call (token s') (sync_header s'))"

fun interleave :: "action list \<Rightarrow> session \<Rightarrow> session" where
  "interleave [] s = s"
| "interleave (a # as) s = interleave as (perform a s)"

section \<open>Session status and the route guard\<close>

text \<open>
  The status of a session, as the guards read it from the context value: the
  \<open>loading\<close> flag first, then whether a user object is there.
\<close>

datatype status = Loading | Authenticated | Anonymous

definition status_of :: "session \<Rightarrow> status" where
  "status_of s = (if loading s then Loading else if user s = None then Anonymous else Authenticated)"

datatype 'v element = Spinner | Navigate string | AppShell 'v

definition ProtectedRoute :: "session \<Rightarrow> 'v \<Rightarrow> 'v element" where
  "ProtectedRoute s children =
     (if loading s then Spinner
      else if user s = None then Navigate ''/login''
      else AppShell children)"

section \<open>Role-scoped navigation\<close>

record nav_item =
  path :: string
  label :: string
  icon :: string
  roles :: "string list"

definition NAV_ITEMS :: "nav_item list" where
  "NAV_ITEMS =
     [\<lparr>path = ''/dashboard'', label = ''Dashboard'', icon = ''LayoutDashboard'',
        roles = [''super_admin'', ''main_handler'', ''admin'', ''employee'']\<rparr>,
      \<lparr>path = ''/crm'', label = ''CRM'', icon = ''Briefcase'',
        roles = [''super_admin'', ''main_handler'', ''admin'']\<rparr>,
      \<lparr>path = ''/projects'', label = ''Projects'', icon = ''FolderKanban'',
        roles = [''super_admin'', ''main_handler'', ''admin'', ''employee'']\<rparr>,
      \<lparr>path = ''/hr'', label = ''HR'', icon = ''Building2'',
        roles = [''super_admin'', ''main_handler'', ''admin'', ''employee'']\<rparr>,
      \<lparr>path = ''/finance'', label = ''Finance'', icon = ''Receipt'',
        roles = [''super_admin'', ''main_handler'', ''admin'', ''employee'']\<rparr>,
      \<lparr>path = ''/subscription'', label = ''Subscription'', icon = ''CreditCard'',
        roles = [''super_admin'', ''main_handler'', ''admin'', ''employee'']\<rparr>]"

definition ADMIN_NAV :: "nav_item list" where
  "ADMIN_NAV =
     [\<lparr>path = ''/users'', label = ''Users'', icon = ''Users'',
        roles = [''super_admin'', ''main_handler'']\<rparr>,
      \<lparr>path = ''/audit-logs'', label = ''Audit Logs'', icon = ''FileText'',
        roles = [''super_admin'', ''main_handler'']\<rparr>]"

text \<open>
  \<open>user?.role\<close> is \<open>undefined\<close> when there is no user; the role arrays hold
  strings only, so \<open>includes(undefined)\<close> is false.
\<close>

definition user_role :: "profile option \<Rightarrow> string option" where
  "user_role u = map_option role u"

fun includes_js :: "string list \<Rightarrow> string option \<Rightarrow> bool" where
  "includes_js rs None = False"
| "includes_js rs (Some r) = (r \<in> set rs)"

text \<open>
  The two filters of \<open>AppShell\<close>, and the filter expression they share with the list
  and the role as parameters.
\<close>

definition filteredNav :: "profile option \<Rightarrow> nav_item list" where
  "filteredNav u = filter (\<lambda>n. includes_js (roles n) (user_role u)) NAV_ITEMS"

definition filteredAdmin :: "profile option \<Rightarrow> nav_item list" where
  "filteredAdmin u = filter (\<lambda>n. includes_js (roles n) (user_role u)) ADMIN_NAV"


section \<open>Properties of sessions\<close>

text \<open>
  A user object is there exactly when a token is, a token being there in the sense
  of the code's own test \<open>if (token)\<close>; and the half of it that says that without a
  user there is no token.
\<close>

definition session_inv :: "session \<Rightarrow> bool" where
  "session_inv s =
     ((user s \<noteq> None \<longrightarrow> truthy (token s)) \<and> (user s = None \<longrightarrow> \<not> truthy (token s)))"

definition no_user_no_token :: "session \<Rightarrow> bool" where
  "no_user_no_token s = (user s = None \<longrightarrow> \<not> truthy (token s))"

text \<open>A login endpoint that resolves hands out a non-empty token.\<close>

fun issues_token :: "event \<Rightarrow> bool" where
  "issues_token (Login em password (Inr (newToken, userData))) = (newToken \<noteq> [])"
| "issues_token (BiometricLogin credentialId em (Inr (newToken, userData))) = (newToken \<noteq> [])"
| "issues_token ev = True"

text \<open>
  The \<open>Authorization\<close> header a token value calls for: none for \<open>null\<close> and for
  the empty string, \<open>Bearer\<close> and the token otherwise.
\<close>

fun bearer :: "string option \<Rightarrow> string option" where
  "bearer None = None"
| "bearer (Some t) = (if t = [] then None else Some (''Bearer '' @ t))"

definition header_synced :: "session \<Rightarrow> bool" where
  "header_synced s = (headers_common s ''Authorization'' = bearer (token s))"

subsection \<open>Sample data\<close>

definition emily :: profile where
  "emily =
     \<lparr>uid = ''u-4'', name = ''Emily Park'', email = ''employee@enterprise.com'',
      role = ''employee'', subscriptionTier = ''free'', biometricEnabled = False\<rparr>"

definition marcus :: profile where
  "marcus =
     \<lparr>uid = ''u-1'', name = ''Marcus Chen'', email = ''superadmin@enterprise.com'',
      role = ''super_admin'', subscriptionTier = ''enterprise'', biometricEnabled = True\<rparr>"

definition no_storage :: "string \<rightharpoonup> string" where
  "no_storage = Map.empty"

definition stored_jwt :: "string \<rightharpoonup> string" where
  "stored_jwt = Map.empty(''token'' \<mapsto> ''jwt-1'')"

definition axios_defaults :: "string \<rightharpoonup> string" where
  "axios_defaults = Map.empty(''Accept'' \<mapsto> ''application/json, text/plain, */*'')"

text \<open>Two sessions as the bootstrap leaves them when the stored token is accepted.\<close>

definition emily_session :: session where
  "emily_session = bootstrap (Inr emily) stored_jwt axios_defaults"

definition marcus_session :: session where
  "marcus_session = bootstrap (Inr marcus) stored_jwt axios_defaults"

text \<open>
  A refresh overtaken by a logout: \<open>refreshUser()\<close> is called in \<open>emily_session\<close>
  and its request is in flight; \<open>logout()\<close> runs, with the effects it triggers; then
  the request resolves and the rest of \<open>fetchUser\<close> runs.
\<close>

definition overtaken_refresh :: "action list" where
  "overtaken_refresh =
     [RefreshUser_called (Some ''jwt-1''), Logout_called, Me_settled (Inr emily)]"

definition stale_refresh_session :: session where
  "stale_refresh_session = interleave overtaken_refresh emily_session"

text \<open>The same with a request that is rejected.\<close>

definition rejected_refresh :: "action list" where
  "rejected_refresh =
     [RefreshUser_called (Some ''jwt-1''), Logout_called, Me_settled (Inl (Http_error 401))]"

text \<open>A login answered with an empty string for a token, from the anonymous session.\<close>

definition empty_token_session :: session where
  "empty_token_session =
     step (Inr emily, Login ''employee@enterprise.com'' ''Employee123'' (Inr ([], emily)))
       (bootstrap (Inr emily) no_storage axios_defaults)"

text \<open>
  A logout, and after the render that follows it a \<open>refreshUser()\<close> through a
  reference from the render before, which has captured the token of
  \<open>emily_session\<close>.
\<close>

definition logout_then_stale_refresh :: "action list" where
  "logout_then_stale_refresh = [Logout_called, RefreshUser_called (Some ''jwt-1'')]"

definition sample_run :: "((failure + profile) \<times> event) list" where
  "sample_run =
     [(Inr emily, Login ''employee@enterprise.com'' ''Employee123'' (Inr (''jwt-2'', emily))),
      (Inl Network_error, RefreshUser),
      (Inr emily, Login ''employee@enterprise.com'' ''wrong'' (Inl (Http_error 401))),
      (Inr emily, Logout),
      (Inr marcus, BiometricLogin ''cred-1'' ''superadmin@enterprise.com'' (Inr (''jwt-3'', marcus)))]"

section \<open>Basic facts about the operations\<close>

lemma fetchUser_loading: "loading (fetchUser captured me s) = False"
  by (simp add: fetchUser_def fetchUser_settle_def send_def split: sum.split)

lemma fetchUser_no_token:
  "\<not> truthy captured \<Longrightarrow> fetchUser captured me s = s\<lparr>loading := False\<rparr>"
  by (simp add: fetchUser_def)

lemma fetchUser_rejected:
  "truthy captured \<Longrightarrow>
   fetchUser captured (Inl e) s =
     s\<lparr>sent := sent s @ [(GET ''/auth/me'', headers_common s ''Authorization'')],
       localStorage := (localStorage s)(''token'' := None),
       token := None, user := None, loading := False\<rparr>"
  by (simp add: fetchUser_def fetchUser_settle_def send_def)

lemma fetchUser_resolved:
  "truthy captured \<Longrightarrow>
   fetchUser captured (Inr data) s =
     s\<lparr>sent := sent s @ [(GET ''/auth/me'', headers_common s ''Authorization'')],
       user := Some data, loading := False\<rparr>"
  by (simp add: fetchUser_def fetchUser_settle_def send_def)

lemma fetchUser_token:
  "token (fetchUser captured me s) = token s \<or> token (fetchUser captured me s) = None"
  by (simp add: fetchUser_def fetchUser_settle_def send_def split: sum.split)

lemma fetchUser_call_settle:
  "fetchUser captured me s =
     (if truthy captured then fetchUser_settle me (fetchUser_call captured s)
      else fetchUser_call captured s)"
  by (simp add: fetchUser_def fetchUser_call_def)

lemma login_rejected:
  "login em password (Inl e) s =
     (Inl e, s\<lparr>sent := sent s @ [(POST ''/auth/login'' [(''email'', em), (''password'', password)],
                                  headers_common s ''Authorization'')]\<rparr>)"
  by (simp add: login_def send_def)

lemma login_resolved:
  "login em password (Inr (newToken, userData)) s =
     (Inr userData,
      s\<lparr>sent := sent s @ [(POST ''/auth/login'' [(''email'', em), (''password'', password)],
                           headers_common s ''Authorization'')],
        localStorage := (localStorage s)(''token'' \<mapsto> newToken),
        token := Some newToken, user := Some userData\<rparr>)"
  by (simp add: login_def send_def)

lemma biometricLogin_rejected:
  "biometricLogin credentialId em (Inl e) s =
     (Inl e, s\<lparr>sent := sent s @ [(POST ''/auth/biometric/login''
                                   [(''credential_id'', credentialId), (''user_email'', em)],
                                  headers_common s ''Authorization'')]\<rparr>)"
  by (simp add: biometricLogin_def send_def)

lemma biometricLogin_resolved:
  "biometricLogin credentialId em (Inr (newToken, userData)) s =
     (Inr userData,
      s\<lparr>sent := sent s @ [(POST ''/auth/biometric/login''
                            [(''credential_id'', credentialId), (''user_email'', em)],
                           headers_common s ''Authorization'')],
        localStorage := (localStorage s)(''token'' \<mapsto> newToken),
        token := Some newToken, user := Some userData\<rparr>)"
  by (simp add: biometricLogin_def send_def)

lemma login_call_settle:
  "snd (login em password res s) =
     login_settle res (act (Login_called em password) s)"
  by (cases res) (auto simp: login_def login_settle_def Let_def)

lemma biometricLogin_call_settle:
  "snd (biometricLogin credentialId em res s) =
     login_settle res (act (BiometricLogin_called credentialId em) s)"
  by (cases res) (auto simp: biometricLogin_def login_settle_def Let_def)

lemma emily_session_eq:
  "emily_session =
     \<lparr>user = Some emily, token = Some ''jwt-1'', loading = False, localStorage = stored_jwt,
      headers_common = axios_defaults(''Authorization'' \<mapsto> ''Bearer jwt-1''),
      sent = [(GET ''/auth/me'', Some ''Bearer jwt-1'')]\<rparr>"
  by (simp add: emily_session_def bootstrap_def react_effects_def AuthProvider_def sync_header_def
      fetchUser_def fetchUser_settle_def send_def stored_jwt_def Let_def)

lemma marcus_session_eq:
  "marcus_session =
     \<lparr>user = Some marcus, token = Some ''jwt-1'', loading = False, localStorage = stored_jwt,
      headers_common = axios_defaults(''Authorization'' \<mapsto> ''Bearer jwt-1''),
      sent = [(GET ''/auth/me'', Some ''Bearer jwt-1'')]\<rparr>"
  by (simp add: marcus_session_def bootstrap_def react_effects_def AuthProvider_def sync_header_def
      fetchUser_def fetchUser_settle_def send_def stored_jwt_def Let_def)

lemma step_refresh_rejected:
  "truthy (token s) \<Longrightarrow>
   step (Inl e, RefreshUser) s =
     s\<lparr>sent := sent s @ [(GET ''/auth/me'', headers_common s ''Authorization'')],
       localStorage := (localStorage s)(''token'' := None),
       headers_common := (headers_common s)(''Authorization'' := None),
       token := None, user := None, loading := False\<rparr>"
  by (cases "token s")
     (simp_all add: step_def Let_def fetchUser_rejected react_effects_def sync_header_def
        fetchUser_def fetchUser_settle_def send_def)

lemma bootstrap_resolved:
  "ls ''token'' = Some T \<Longrightarrow> T \<noteq> [] \<Longrightarrow>
   bootstrap (Inr data) ls hs =
     \<lparr>user = Some data, token = Some T, loading = False, localStorage = ls,
      headers_common = hs(''Authorization'' \<mapsto> ''Bearer '' @ T),
      sent = [(GET ''/auth/me'', Some (''Bearer '' @ T))]\<rparr>"
  by (simp add: bootstrap_def react_effects_def AuthProvider_def sync_header_def
      fetchUser_def fetchUser_settle_def send_def Let_def)

lemma bootstrap_no_token:
  "\<not> truthy (ls ''token'') \<Longrightarrow>
   bootstrap me ls hs =
     \<lparr>user = None, token = ls ''token'', loading = False, localStorage = ls,
      headers_common = hs(''Authorization'' := None), sent = []\<rparr>"
  by (cases "ls ''token''")
     (simp_all add: bootstrap_def react_effects_def AuthProvider_def sync_header_def
      fetchUser_def fetchUser_settle_def Let_def)

lemma step_logout:
  "step (me, Logout) s =
     (if token s = None then logout s
      else (logout s)\<lparr>headers_common := (headers_common s)(''Authorization'' := None),
                      loading := False\<rparr>)"
  by (simp add: step_def Let_def logout_def react_effects_def sync_header_def fetchUser_def
      fetchUser_settle_def)



lemma perform_logout:
  "perform Logout_called s =
     (if token s = None then logout s
      else (logout s)\<lparr>headers_common := (headers_common s)(''Authorization'' := None),
                      loading := False\<rparr>)"
  by (simp add: perform_def Let_def logout_def sync_header_def fetchUser_call_def)

lemma step_logout_perform: "step (me, Logout) s = perform Logout_called s"
  by (simp add: step_logout perform_logout)

lemma perform_refresh_called:
  "perform (RefreshUser_called captured) s = fetchUser_call captured s"
  by (simp add: perform_def Let_def fetchUser_call_def send_def)

lemma perform_me_resolved:
  "perform (Me_settled (Inr data)) s = s\<lparr>user := Some data, loading := False\<rparr>"
  by (simp add: perform_def Let_def fetchUser_settle_def)

section \<open>The session invariant\<close>

lemma session_inv_fetchUser: "session_inv s \<Longrightarrow> session_inv (fetchUser (token s) me s)"
  by (auto simp: session_inv_def fetchUser_def fetchUser_settle_def send_def split: sum.split)

lemma session_inv_sync: "session_inv (sync_header s) = session_inv s"
  by (auto simp: session_inv_def sync_header_def split: option.split)

lemma sync_header_token: "token (sync_header s) = token s"
  by (simp add: sync_header_def split: option.split)

lemma session_inv_fetchUser_sync:
  "session_inv s \<Longrightarrow> session_inv (fetchUser (token s) me (sync_header s))"
  using session_inv_fetchUser [of "sync_header s" me]
  by (simp add: session_inv_sync sync_header_token)

lemma session_inv_effects: "session_inv s \<Longrightarrow> session_inv (react_effects me s)"
  by (simp add: react_effects_def Let_def session_inv_fetchUser_sync)

lemma session_inv_apply:
  assumes "session_inv s" and "issues_token ev"
  shows "session_inv (apply_event me ev s)"
proof (cases ev)
  case (Login em password res)
  with assms show ?thesis
    by (cases res) (auto simp: session_inv_def login_rejected login_resolved)
next
  case (BiometricLogin credentialId em res)
  with assms show ?thesis
    by (cases res) (auto simp: session_inv_def biometricLogin_rejected biometricLogin_resolved)
next
  case Logout
  then show ?thesis by (simp add: session_inv_def logout_def)
next
  case RefreshUser
  with assms show ?thesis by (simp add: session_inv_fetchUser)
qed

lemma session_inv_step: "session_inv s \<Longrightarrow> issues_token (snd p) \<Longrightarrow> session_inv (step p s)"
  by (simp add: step_def Let_def session_inv_apply session_inv_effects)

lemma session_inv_AuthProvider: "\<not> truthy (ls ''token'') \<Longrightarrow> session_inv (AuthProvider ls hs)"
  by (simp add: session_inv_def AuthProvider_def)

lemma session_inv_bootstrap: "session_inv (bootstrap me ls hs)"
proof (cases "truthy (ls ''token'')")
  case False
  then show ?thesis
    by (simp add: bootstrap_def session_inv_AuthProvider session_inv_effects)
next
  case True
  then obtain t where t: "ls ''token'' = Some t" "t \<noteq> []"
    by (cases "ls ''token''") auto
  have "bootstrap me ls hs = fetchUser (Some t) me (sync_header (AuthProvider ls hs)) \<or>
      bootstrap me ls hs =
        fetchUser None me (sync_header (fetchUser (Some t) me (sync_header (AuthProvider ls hs))))"
    using t fetchUser_token [of "Some t" me "sync_header (AuthProvider ls hs)"]
    by (auto simp: bootstrap_def react_effects_def Let_def sync_header_token AuthProvider_def)
  moreover have a: "session_inv (fetchUser (Some t) me (sync_header (AuthProvider ls hs)))"
    using t by (cases me)
      (simp_all add: session_inv_def fetchUser_def fetchUser_settle_def send_def
        sync_header_def AuthProvider_def)
  moreover have "session_inv (fetchUser None me (sync_header s'))" if "session_inv s'" for s'
  proof -
    have "session_inv ((sync_header s')\<lparr>loading := False\<rparr>) = session_inv (sync_header s')"
      by (simp add: session_inv_def)
    then show ?thesis
      using that by (simp add: fetchUser_no_token session_inv_sync)
  qed
  ultimately show ?thesis by auto
qed

lemma session_inv_run:
  "session_inv s \<Longrightarrow> \<forall>p \<in> set ps. issues_token (snd p) \<Longrightarrow> session_inv (run ps s)"
  by (induction ps arbitrary: s) (simp_all add: session_inv_step)

subsection \<open>Without a user there is no token\<close>

lemma no_user_no_token_call:
  "no_user_no_token s \<Longrightarrow> no_user_no_token (fetchUser_call captured s)"
  by (simp add: no_user_no_token_def fetchUser_call_def send_def)

lemma no_user_no_token_settle:
  "no_user_no_token s \<Longrightarrow> no_user_no_token (fetchUser_settle me s)"
  by (simp add: no_user_no_token_def fetchUser_settle_def split: sum.split)

lemma no_user_no_token_sync: "no_user_no_token (sync_header s) = no_user_no_token s"
  by (auto simp: no_user_no_token_def sync_header_def split: option.split)

lemma no_user_no_token_fetchUser:
  "no_user_no_token s \<Longrightarrow> no_user_no_token (fetchUser captured me s)"
  by (simp add: fetchUser_call_settle no_user_no_token_call no_user_no_token_settle)

lemma no_user_no_token_act: "no_user_no_token s \<Longrightarrow> no_user_no_token (act a s)"
proof (cases a)
  case (Login_settled res)
  assume "no_user_no_token s"
  with Login_settled show ?thesis
    by (cases res) (auto simp: no_user_no_token_def login_settle_def)
qed (simp_all add: no_user_no_token_call no_user_no_token_settle,
     simp_all add: no_user_no_token_def send_def logout_def)

lemma no_user_no_token_perform: "no_user_no_token s \<Longrightarrow> no_user_no_token (perform a s)"
  by (simp add: perform_def Let_def no_user_no_token_act no_user_no_token_call
      no_user_no_token_sync)

lemma no_user_no_token_interleave:
  "no_user_no_token s \<Longrightarrow> no_user_no_token (interleave acts s)"
  by (induction acts arbitrary: s) (simp_all add: no_user_no_token_perform)

lemma no_user_no_token_apply: "no_user_no_token s \<Longrightarrow> no_user_no_token (apply_event me ev s)"
proof (cases ev)
  case (Login em password res)
  assume "no_user_no_token s"
  with Login show ?thesis
    by (cases res) (auto simp: no_user_no_token_def login_rejected login_resolved)
next
  case (BiometricLogin credentialId em res)
  assume "no_user_no_token s"
  with BiometricLogin show ?thesis
    by (cases res) (auto simp: no_user_no_token_def biometricLogin_rejected biometricLogin_resolved)
next
  case Logout
  then show ?thesis by (simp add: no_user_no_token_def logout_def)
next
  case RefreshUser
  assume "no_user_no_token s"
  with RefreshUser show ?thesis by (simp add: no_user_no_token_fetchUser)
qed

lemma no_user_no_token_step: "no_user_no_token s \<Longrightarrow> no_user_no_token (step p s)"
  by (simp add: step_def Let_def react_effects_def no_user_no_token_apply
      no_user_no_token_fetchUser no_user_no_token_sync)

lemma no_user_no_token_run: "no_user_no_token s \<Longrightarrow> no_user_no_token (run ps s)"
  by (induction ps arbitrary: s) (simp_all add: no_user_no_token_step)

lemma no_user_no_token_bootstrap: "no_user_no_token (bootstrap me ls hs)"
  using session_inv_bootstrap [of me ls hs] by (simp add: session_inv_def no_user_no_token_def)

text \<open>
  C1, as the claim has it, fails in its first half, in two places. The operations are
  asynchronous and nothing cancels a request in flight: when a logout runs while a
  refresh is waiting for its answer and the answer then arrives, the user is stored
  again while the token stays cleared. And the token test is truthiness: a login
  answered with an empty token leaves a user with a token that counts as absent.
\<close>

theorem session_invariant_counterexample:
  "session_inv emily_session \<and>
   user stale_refresh_session = Some emily \<and>
   token stale_refresh_session = None \<and>
   localStorage stale_refresh_session ''token'' = None \<and>
   \<not> session_inv stale_refresh_session \<and>
   user empty_token_session = Some emily \<and>
   \<not> truthy (token empty_token_session) \<and>
   \<not> session_inv empty_token_session"
proof -
  have a: "session_inv emily_session"
    by (simp add: emily_session_def session_inv_bootstrap)
  have d: "user stale_refresh_session = Some emily \<and> token stale_refresh_session = None \<and>
      localStorage stale_refresh_session ''token'' = None"
    by (simp add: stale_refresh_session_def overtaken_refresh_def perform_refresh_called
        perform_logout perform_me_resolved fetchUser_call_def send_def logout_def
        emily_session_eq)
  have e: "bootstrap (Inr emily) no_storage axios_defaults =
      \<lparr>user = None, token = None, loading = False, localStorage = no_storage,
       headers_common = axios_defaults(''Authorization'' := None), sent = []\<rparr>"
    using bootstrap_no_token [of no_storage "Inr emily" axios_defaults]
    by (simp add: no_storage_def)
  have f: "user empty_token_session = Some emily \<and> token empty_token_session = Some []"
    by (simp add: empty_token_session_def e step_def login_resolved react_effects_def
        sync_header_def fetchUser_def Let_def)
  show ?thesis
    using a d f by (simp add: session_inv_def)
qed

text \<open>
  C1, amended. Once the bootstrap has settled, a session without a user has no token,
  whatever calls and settlements of login, biometricLogin, logout and refresh follow,
  in whatever order, through whatever reference and with whatever token. A session
  with a user has a token after any sequence of these operations run one at a time,
  each called through the context value of the current render and run to its
  settlement with the effects it triggers, the login endpoints handing out non-empty
  tokens. A token is present when it passes the code's test \<open>if (token)\<close>, and a
  \<open>GET /auth/me\<close> that resolves carries a user object.
\<close>

theorem session_invariant_reachable:
  "(user (interleave acts (bootstrap me ls hs)) = None \<longrightarrow>
      \<not> truthy (token (interleave acts (bootstrap me ls hs)))) \<and>
   (user (run ps (bootstrap me ls hs)) = None \<longrightarrow>
      \<not> truthy (token (run ps (bootstrap me ls hs)))) \<and>
   ((\<forall>p \<in> set ps. issues_token (snd p)) \<longrightarrow>
      user (run ps (bootstrap me ls hs)) \<noteq> None \<longrightarrow>
      truthy (token (run ps (bootstrap me ls hs))))"
proof -
  have a: "no_user_no_token (interleave acts (bootstrap me ls hs))"
    by (simp add: no_user_no_token_interleave no_user_no_token_bootstrap)
  have b: "no_user_no_token (run ps (bootstrap me ls hs))"
    by (simp add: no_user_no_token_run no_user_no_token_bootstrap)
  have c: "session_inv (run ps (bootstrap me ls hs))" if "\<forall>p \<in> set ps. issues_token (snd p)"
    using that session_inv_bootstrap session_inv_run by blast
  show ?thesis
    using a b c unfolding no_user_no_token_def session_inv_def by blast
qed

lemma sample_run_end:
  "user (run sample_run emily_session) = Some marcus \<and>
   token (run sample_run emily_session) = Some ''jwt-3''"
  by (simp add: sample_run_def emily_session_eq step_def login_resolved login_rejected
      biometricLogin_resolved react_effects_def sync_header_def fetchUser_def
      fetchUser_settle_def send_def logout_def Let_def)

lemma rejected_refresh_end:
  "user (interleave rejected_refresh emily_session) = None \<and>
   token (interleave rejected_refresh emily_session) = None"
  by (simp add: rejected_refresh_def perform_refresh_called perform_logout perform_def
      fetchUser_call_def fetchUser_settle_def send_def logout_def emily_session_eq Let_def
      sync_header_def)

theorem session_invariant_reachable_witness:
  "list_all (\<lambda>p. issues_token (snd p)) sample_run \<and>
   user (run sample_run (bootstrap (Inr emily) stored_jwt axios_defaults)) = Some marcus \<and>
   truthy (token (run sample_run (bootstrap (Inr emily) stored_jwt axios_defaults))) \<and>
   user (interleave rejected_refresh (bootstrap (Inr emily) stored_jwt axios_defaults)) = None \<and>
   \<not> truthy (token (interleave rejected_refresh (bootstrap (Inr emily) stored_jwt axios_defaults)))"
proof -
  have h: "\<forall>p \<in> set sample_run. issues_token (snd p)"
    by (simp add: sample_run_def)
  have u: "user (run sample_run (bootstrap (Inr emily) stored_jwt axios_defaults)) = Some marcus"
    using sample_run_end by (simp add: emily_session_def)
  have v: "user (interleave rejected_refresh (bootstrap (Inr emily) stored_jwt axios_defaults)) = None"
    using rejected_refresh_end by (simp add: emily_session_def)
  show ?thesis
    using h u v
      session_invariant_reachable [of rejected_refresh "Inr emily" stored_jwt axios_defaults
        sample_run]
    by (simp add: list_all_iff)
qed

section \<open>Failed logins\<close>

text \<open>
  C5. A login whose request is rejected, for whatever reason, hands the rejection to
  its caller and leaves user, token, loading flag, durable storage and default headers
  as they were: the only trace is the request that was sent. No effect runs
  afterwards, the token being the same.
\<close>

theorem login_failure_leaves_session:
  "login em password (Inl e) s =
     (Inl e, s\<lparr>sent := sent s @ [(POST ''/auth/login'' [(''email'', em), (''password'', password)],
                                  headers_common s ''Authorization'')]\<rparr>) \<and>
   user (snd (login em password (Inl e) s)) = user s \<and>
   token (snd (login em password (Inl e) s)) = token s \<and>
   loading (snd (login em password (Inl e) s)) = loading s \<and>
   localStorage (snd (login em password (Inl e) s)) = localStorage s \<and>
   headers_common (snd (login em password (Inl e) s)) = headers_common s \<and>
   step (me, Login em password (Inl e)) s = snd (login em password (Inl e) s)"
  by (simp add: login_rejected step_def)

section \<open>Settlement of the bootstrap refresh\<close>

lemma fetchUser_call_keeps_settled: "\<not> loading s \<Longrightarrow> \<not> loading (fetchUser_call captured s)"
  by (simp add: fetchUser_call_def send_def)

lemma sync_header_loading: "loading (sync_header s) = loading s"
  by (simp add: sync_header_def split: option.split)

lemma act_keeps_settled: "\<not> loading s \<Longrightarrow> \<not> loading (act a s)"
proof (cases a)
  case (Login_settled res)
  assume "\<not> loading s"
  with Login_settled show ?thesis
    by (cases res) (auto simp: login_settle_def)
next
  case (Me_settled me)
  then show ?thesis by (simp add: fetchUser_settle_def split: sum.split)
qed (simp_all add: fetchUser_call_keeps_settled, simp_all add: send_def logout_def)

lemma perform_keeps_settled: "\<not> loading s \<Longrightarrow> \<not> loading (perform a s)"
  by (simp add: perform_def Let_def act_keeps_settled fetchUser_call_keeps_settled
      sync_header_loading)

lemma interleave_keeps_settled: "\<not> loading s \<Longrightarrow> \<not> loading (interleave acts s)"
  by (induction acts arbitrary: s) (simp_all add: perform_keeps_settled)

lemma apply_event_keeps_settled: "\<not> loading s \<Longrightarrow> \<not> loading (apply_event me ev s)"
proof (cases ev)
  case (Login em password res)
  assume "\<not> loading s"
  with Login show ?thesis
    by (cases res) (auto simp: login_rejected login_resolved)
next
  case (BiometricLogin credentialId em res)
  assume "\<not> loading s"
  with BiometricLogin show ?thesis
    by (cases res) (auto simp: biometricLogin_rejected biometricLogin_resolved)
next
  case Logout
  assume "\<not> loading s"
  with Logout show ?thesis by (simp add: logout_def)
next
  case RefreshUser
  then show ?thesis by (simp add: fetchUser_loading)
qed

lemma react_effects_loading: "loading (react_effects me s) = False"
  by (simp add: react_effects_def Let_def fetchUser_loading)

lemma step_keeps_settled: "\<not> loading s \<Longrightarrow> \<not> loading (step p s)"
  by (simp add: step_def Let_def apply_event_keeps_settled react_effects_loading)

lemma run_keeps_settled: "\<not> loading s \<Longrightarrow> \<not> loading (run ps s)"
  by (induction ps arbitrary: s) (simp_all add: step_keeps_settled)

text \<open>
  C10. However \<open>fetchUser\<close> settles (no token, profile fetched, fetch rejected), the
  loading flag is false afterwards, through whatever reference it was called and in
  whatever state the settlement finds the session. So it is after the bootstrap, and
  it stays so: after any operations run one at a time, and after any calls and
  settlements in any order, the status is not loading and the route guard does not
  show the waiting indicator but either redirects to the login view or renders the
  view in the shell.
\<close>

theorem fetchUser_settles_loading:
  "loading (fetchUser captured me s) = False \<and>
   loading (fetchUser_settle me s) = False \<and>
   status_of (fetchUser captured me s) \<noteq> Loading \<and>
   ProtectedRoute (fetchUser captured me s) v \<noteq> Spinner \<and>
   loading (bootstrap me ls hs) = False \<and>
   status_of (bootstrap me ls hs) \<noteq> Loading \<and>
   (ProtectedRoute (bootstrap me ls hs) v = Navigate ''/login'' \<or>
    ProtectedRoute (bootstrap me ls hs) v = AppShell v) \<and>
   loading (run ps (bootstrap me ls hs)) = False \<and>
   status_of (run ps (bootstrap me ls hs)) \<noteq> Loading \<and>
   (ProtectedRoute (run ps (bootstrap me ls hs)) v = Navigate ''/login'' \<or>
    ProtectedRoute (run ps (bootstrap me ls hs)) v = AppShell v) \<and>
   loading (interleave acts (bootstrap me ls hs)) = False \<and>
   status_of (interleave acts (bootstrap me ls hs)) \<noteq> Loading \<and>
   (ProtectedRoute (interleave acts (bootstrap me ls hs)) v = Navigate ''/login'' \<or>
    ProtectedRoute (interleave acts (bootstrap me ls hs)) v = AppShell v)"
proof -
  have b: "loading (bootstrap me ls hs) = False"
    by (simp add: bootstrap_def react_effects_loading)
  have c: "loading (fetchUser_settle me s) = False"
    by (simp add: fetchUser_settle_def split: sum.split)
  have d: "loading (run ps (bootstrap me ls hs)) = False"
    using b run_keeps_settled by simp
  have e: "loading (interleave acts (bootstrap me ls hs)) = False"
    using b interleave_keeps_settled by simp
  show ?thesis
    by (simp add: fetchUser_loading b c d e status_of_def ProtectedRoute_def)
qed

section \<open>Refresh\<close>

text \<open>
  C2. When a refresh starts with a token \<open>T\<close> and \<open>GET /auth/me\<close> is rejected with
  an HTTP error status (401 for a token the server does not accept), the session ends
  anonymous: user and token are cleared and durable storage holds no token any more.
  This holds for \<open>fetchUser\<close> alone and for the whole step with the effects that
  follow; and the rejection clears the session in whatever state \<open>s'\<close> it finds it.
\<close>

theorem refresh_unauthorized_clears:
  assumes "token s = Some T" and "T \<noteq> []"
  shows "status_of (fetchUser (token s) (Inl (Http_error code)) s) = Anonymous \<and>
         user (fetchUser (token s) (Inl (Http_error code)) s) = None \<and>
         token (fetchUser (token s) (Inl (Http_error code)) s) = None \<and>
         localStorage (fetchUser (token s) (Inl (Http_error code)) s) ''token'' = None \<and>
         status_of (step (Inl (Http_error code), RefreshUser) s) = Anonymous \<and>
         user (step (Inl (Http_error code), RefreshUser) s) = None \<and>
         token (step (Inl (Http_error code), RefreshUser) s) = None \<and>
         localStorage (step (Inl (Http_error code), RefreshUser) s) ''token'' = None \<and>
         status_of (fetchUser_settle (Inl (Http_error code)) s') = Anonymous \<and>
         localStorage (fetchUser_settle (Inl (Http_error code)) s') ''token'' = None"
  using assms
  by (simp add: fetchUser_rejected step_refresh_rejected status_of_def fetchUser_settle_def)

theorem refresh_unauthorized_clears_witness:
  "token emily_session = Some ''jwt-1'' \<and>
   localStorage emily_session ''token'' = Some ''jwt-1'' \<and>
   status_of (fetchUser (token emily_session) (Inl (Http_error 401)) emily_session) = Anonymous \<and>
   token (fetchUser (token emily_session) (Inl (Http_error 401)) emily_session) = None \<and>
   localStorage (fetchUser (token emily_session) (Inl (Http_error 401)) emily_session) ''token'' =
     None"
proof -
  have h: "token emily_session = Some ''jwt-1''"
    by (simp add: emily_session_eq)
  have l: "localStorage emily_session ''token'' = Some ''jwt-1''"
    by (simp add: emily_session_eq stored_jwt_def)
  show ?thesis
    using h l refresh_unauthorized_clears [OF h, of 401] by simp
qed

text \<open>
  C3, as the claim has it, fails: the session of a logged-in employee does not survive
  a refresh that fails for lack of a network. User and token are cleared and the token
  is removed from durable storage.
\<close>

theorem refresh_network_failure_counterexample:
  "user emily_session = Some emily \<and>
   token emily_session = Some ''jwt-1'' \<and>
   localStorage emily_session ''token'' = Some ''jwt-1'' \<and>
   user (fetchUser (token emily_session) (Inl Network_error) emily_session) = None \<and>
   token (fetchUser (token emily_session) (Inl Network_error) emily_session) = None \<and>
   localStorage (fetchUser (token emily_session) (Inl Network_error) emily_session) ''token'' =
     None"
  by (simp add: emily_session_eq fetchUser_rejected stored_jwt_def)

text \<open>
  C3, amended. A refresh that fails for a network or transport failure is handled as
  one the server rejects: the \<open>catch\<close> does not look at the error. The session ends
  anonymous, with user and token cleared and the token removed from durable storage.
\<close>

theorem refresh_network_failure_clears:
  assumes "token s = Some T" and "T \<noteq> []"
  shows "fetchUser (token s) (Inl Network_error) s =
           fetchUser (token s) (Inl (Http_error 401)) s \<and>
         status_of (fetchUser (token s) (Inl Network_error) s) = Anonymous \<and>
         user (fetchUser (token s) (Inl Network_error) s) = None \<and>
         token (fetchUser (token s) (Inl Network_error) s) = None \<and>
         localStorage (fetchUser (token s) (Inl Network_error) s) ''token'' = None"
  using assms by (simp add: fetchUser_rejected status_of_def)

theorem refresh_network_failure_clears_witness:
  "token marcus_session = Some ''jwt-1'' \<and>
   status_of marcus_session = Authenticated \<and>
   status_of (fetchUser (token marcus_session) (Inl Network_error) marcus_session) = Anonymous \<and>
   user (fetchUser (token marcus_session) (Inl Network_error) marcus_session) = None \<and>
   localStorage (fetchUser (token marcus_session) (Inl Network_error) marcus_session) ''token'' =
     None"
proof -
  have h: "token marcus_session = Some ''jwt-1''"
    by (simp add: marcus_session_eq)
  have a: "status_of marcus_session = Authenticated"
    by (simp add: marcus_session_eq status_of_def)
  show ?thesis
    using h a refresh_network_failure_clears [OF h] by blast
qed

text \<open>
  C4. With a token \<open>T\<close> in durable storage at startup and a \<open>GET /auth/me\<close> that
  resolves, the bootstrap ends authenticated, and the user of the session is the
  object the server returned; the request went out once, with \<open>T\<close> as bearer token,
  and token and storage are as they were. A later refresh that resolves replaces the
  user in the same way.
\<close>

theorem refresh_success_authenticates:
  assumes "ls ''token'' = Some T" and "T \<noteq> []"
  shows "status_of (bootstrap (Inr data) ls hs) = Authenticated \<and>
         user (bootstrap (Inr data) ls hs) = Some data \<and>
         token (bootstrap (Inr data) ls hs) = Some T \<and>
         localStorage (bootstrap (Inr data) ls hs) = ls \<and>
         sent (bootstrap (Inr data) ls hs) = [(GET ''/auth/me'', Some (''Bearer '' @ T))] \<and>
         user (fetchUser (token (bootstrap (Inr data) ls hs)) (Inr data')
                 (bootstrap (Inr data) ls hs)) = Some data' \<and>
         status_of (fetchUser (token (bootstrap (Inr data) ls hs)) (Inr data')
                 (bootstrap (Inr data) ls hs)) = Authenticated"
  using assms by (simp add: bootstrap_resolved status_of_def fetchUser_resolved)

theorem refresh_success_authenticates_witness:
  "stored_jwt ''token'' = Some ''jwt-1'' \<and>
   status_of (bootstrap (Inr emily) stored_jwt axios_defaults) = Authenticated \<and>
   user (bootstrap (Inr emily) stored_jwt axios_defaults) = Some emily \<and>
   user (fetchUser (token (bootstrap (Inr emily) stored_jwt axios_defaults)) (Inr marcus)
           (bootstrap (Inr emily) stored_jwt axios_defaults)) = Some marcus"
proof -
  have h: "stored_jwt ''token'' = Some ''jwt-1''"
    by (simp add: stored_jwt_def)
  have n: "''jwt-1'' \<noteq> []"
    by simp
  show ?thesis
    using h n refresh_success_authenticates [of stored_jwt "''jwt-1''" emily axios_defaults marcus]
    by blast
qed

section \<open>No token, no request\<close>




text \<open>
  Should the server answer the request of such a stale reference with a user, the user
  is stored while the token stays cleared: this is why the half of the session
  invariant that says that a user comes with a token is stated for calls through the
  reference of the current render.
\<close>

lemma stale_reference_resolved:
  "user (interleave (logout_then_stale_refresh @ [Me_settled (Inr emily)]) emily_session) =
     Some emily \<and>
   token (interleave (logout_then_stale_refresh @ [Me_settled (Inr emily)]) emily_session) = None"
  by (simp add: logout_then_stale_refresh_def perform_logout perform_refresh_called
      perform_me_resolved fetchUser_call_def send_def logout_def emily_session_eq)

section \<open>The Authorization header\<close>

lemma fetchUser_headers: "headers_common (fetchUser captured me s) = headers_common s"
  by (simp add: fetchUser_def fetchUser_settle_def send_def split: sum.split)

lemma apply_event_headers: "headers_common (apply_event me ev s) = headers_common s"
proof (cases ev)
  case (Login em password res)
  then show ?thesis by (cases res) (auto simp: login_rejected login_resolved)
next
  case (BiometricLogin credentialId em res)
  then show ?thesis by (cases res) (auto simp: biometricLogin_rejected biometricLogin_resolved)
next
  case Logout
  then show ?thesis by (simp add: logout_def)
next
  case RefreshUser
  then show ?thesis by (simp add: fetchUser_headers)
qed

lemma header_synced_sync: "header_synced (sync_header s)"
  by (simp add: header_synced_def sync_header_def split: option.split)

lemma header_synced_fetchUser:
  "header_synced s \<Longrightarrow> token (fetchUser captured me s) = token s \<Longrightarrow>
   header_synced (fetchUser captured me s)"
  by (simp add: header_synced_def fetchUser_headers)

lemma header_synced_effects: "header_synced (react_effects me s)"
proof (cases "token (fetchUser (token s) me (sync_header s)) = token s")
  case True
  then show ?thesis
    by (simp add: react_effects_def Let_def header_synced_fetchUser header_synced_sync
        sync_header_token)
next
  case False
  then have n: "token (fetchUser (token s) me (sync_header s)) = None"
    using fetchUser_token [of "token s" me "sync_header s"] by (simp add: sync_header_token)
  then have "fetchUser (token (fetchUser (token s) me (sync_header s))) me
        (sync_header (fetchUser (token s) me (sync_header s))) =
      (sync_header (fetchUser (token s) me (sync_header s)))\<lparr>loading := False\<rparr>"
    by (simp add: fetchUser_no_token)
  moreover have
    "header_synced ((sync_header (fetchUser (token s) me (sync_header s)))\<lparr>loading := False\<rparr>)"
    using header_synced_sync [of "fetchUser (token s) me (sync_header s)"]
    by (simp add: header_synced_def)
  ultimately show ?thesis
    using False by (simp add: react_effects_def Let_def)
qed

lemma header_synced_step: "header_synced s \<Longrightarrow> header_synced (step p s)"
  by (simp add: step_def Let_def header_synced_effects)
     (simp add: header_synced_def apply_event_headers)

lemma header_synced_run: "header_synced s \<Longrightarrow> header_synced (run ps s)"
  by (induction ps arbitrary: s) (simp_all add: header_synced_step)

text \<open>
  C9. After the header effect has run, the default headers hold
  \<open>Authorization: Bearer <token>\<close> when the token is a non-empty string and no
  \<open>Authorization\<close> entry at all otherwise. The same holds of the session after the
  bootstrap and after every login, biometricLogin, logout and refresh that follows,
  once the effects of the step have run; the header is never the bare \<open>Bearer\<close>
  prefix.
\<close>

theorem authorization_header_follows_token:
  "headers_common (sync_header s) ''Authorization'' = bearer (token s) \<and>
   headers_common (run ps (bootstrap me ls hs)) ''Authorization'' =
     bearer (token (run ps (bootstrap me ls hs))) \<and>
   headers_common (run ps (bootstrap me ls hs)) ''Authorization'' \<noteq> Some ''Bearer ''"
proof -
  have a: "header_synced (sync_header s)" by (rule header_synced_sync)
  have b: "header_synced (run ps (bootstrap me ls hs))"
    by (simp add: header_synced_run bootstrap_def header_synced_effects)
  have c: "bearer t \<noteq> Some ''Bearer ''" for t
    by (cases t) simp_all
  show ?thesis using a b c by (simp add: header_synced_def sync_header_token)
qed

section \<open>The route guard\<close>

text \<open>
  C6. What \<open>ProtectedRoute\<close> renders is determined by the status of the session:
  the waiting indicator while loading, a redirect to the login view when anonymous,
  the requested view inside the shell when authenticated. The role of the user plays
  no part: changing it changes nothing, and two sessions of equal status get the same
  decision for the same view.
\<close>

theorem route_guard_by_status:
  "ProtectedRoute s v =
     (case status_of s of
        Loading \<Rightarrow> Spinner
      | Anonymous \<Rightarrow> Navigate ''/login''
      | Authenticated \<Rightarrow> AppShell v) \<and>
   ProtectedRoute (s\<lparr>user := map_option (\<lambda>u. u\<lparr>role := r\<rparr>) (user s)\<rparr>) v = ProtectedRoute s v \<and>
   (status_of s = status_of s' \<longrightarrow> ProtectedRoute s v = ProtectedRoute s' v)"
  by (auto simp: ProtectedRoute_def status_of_def split: if_splits)

theorem route_guard_by_status_witness:
  "status_of emily_session = Authenticated \<and>
   status_of marcus_session = Authenticated \<and>
   ProtectedRoute emily_session ''/users'' = AppShell ''/users'' \<and>
   ProtectedRoute emily_session ''/users'' = ProtectedRoute marcus_session ''/users''"
proof -
  have a: "status_of emily_session = Authenticated"
    by (simp add: emily_session_eq status_of_def)
  have b: "status_of marcus_session = Authenticated"
    by (simp add: marcus_session_eq status_of_def)
  show ?thesis
    using a b route_guard_by_status [of emily_session "''/users''" "''employee''" marcus_session]
    by auto
qed

section \<open>The navigation filter\<close>



lemma super_admin_nav:
  "role u = ''super_admin'' \<Longrightarrow>
   filteredNav (Some u) = NAV_ITEMS \<and> filteredAdmin (Some u) = ADMIN_NAV"
  by (simp add: filteredNav_def filteredAdmin_def user_role_def NAV_ITEMS_def ADMIN_NAV_def)



end
